theory Spec2Isabelle
  imports Main "HOL-Library.Word"
begin

section \<open>The Maybe container of package mo (maybe.go)\<close>

text \<open>
  The package defines one generic type, \<^verbatim>\<open>Maybe[T]\<close>, and decides what its
  constructors do by inspecting the run-time kind of the argument with package
  \<^verbatim>\<open>reflect\<close>. The model therefore carries Go's types and values as data:
  a type argument \<^verbatim>\<open>T\<close> is a term of \<open>ty\<close>, passed explicitly where the source
  instantiates a type parameter, and a Go value is a term of \<open>val\<close>.
\<close>

subsection \<open>Go types and values\<close>

text \<open>
  The fragment of Go's types covered: \<^verbatim>\<open>bool\<close>, \<^verbatim>\<open>int\<close> (64 bits),
  \<^verbatim>\<open>string\<close>, pointers, slices, maps, functions, structs and the empty interface
  \<^verbatim>\<open>any\<close>.
\<close>

datatype ty =
    TBool
  | TInt
  | TString
  | TPtr ty
  | TSlice ty
  | TMap ty ty
  | TFunc "ty list" "ty list"
  | TStruct "(string \<times> ty) list"
  | TAny

text \<open>
  Values. The nilable kinds carry an option whose \<open>None\<close> is Go's \<^verbatim>\<open>nil\<close>.
  A non-nil pointer is represented by the value it points to: no operation of the
  package writes through a pointer or compares two pointers. A value of the interface
  type \<^verbatim>\<open>any\<close> is \<open>VIface d\<close>, where \<open>d\<close> is the dynamic value it holds
  (\<open>None\<close> for the nil interface); a dynamic value is never itself a \<open>VIface\<close>.
\<close>

datatype val =
    VBool bool
  | VInt "64 word"
  | VString string
  | VPtr ty "val option"
  | VSlice ty "val list option"
  | VMap ty ty "(val \<times> val) list option"
  | VFunc "ty list" "ty list" "nat option"
  | VStruct "(string \<times> val) list"
  | VIface "val option"

text \<open>The zero value of a type, which Go stores in every field a literal leaves out.\<close>

fun zero :: "ty \<Rightarrow> val" where
  "zero TBool = VBool False"
| "zero TInt = VInt 0"
| "zero TString = VString []"
| "zero (TPtr U) = VPtr U None"
| "zero (TSlice U) = VSlice U None"
| "zero (TMap K V) = VMap K V None"
| "zero (TFunc ps rs) = VFunc ps rs None"
| "zero (TStruct fs) = VStruct (map (\<lambda>(n, U). (n, zero U)) fs)"
| "zero TAny = VIface None"

text \<open>The type of a value: for a dynamic value, its dynamic type.\<close>

fun type_of :: "val \<Rightarrow> ty" where
  "type_of (VBool b) = TBool"
| "type_of (VInt i) = TInt"
| "type_of (VString s) = TString"
| "type_of (VPtr U p) = TPtr U"
| "type_of (VSlice U xs) = TSlice U"
| "type_of (VMap K V m) = TMap K V"
| "type_of (VFunc ps rs f) = TFunc ps rs"
| "type_of (VStruct fs) = TStruct (map (\<lambda>(n, v). (n, type_of v)) fs)"
| "type_of (VIface d) = TAny"

subsection \<open>Panics\<close>

text \<open>
  A run-time panic is a value: every function of the package that can panic returns
  \<open>panic + 'a\<close>, with \<open>Inl\<close> the panic. \<open>TypeAssertionError\<close> is the panic of a failed
  type assertion \<^verbatim>\<open>x.(T)\<close>, \<open>ValueError\<close> the panic of a \<^verbatim>\<open>reflect.Value\<close>
  method called on a value of the wrong kind.
\<close>

datatype panic = TypeAssertionError | ValueError

fun pbind :: "panic + 'a \<Rightarrow> ('a \<Rightarrow> panic + 'b) \<Rightarrow> panic + 'b" where
  "pbind (Inl p) f = Inl p"
| "pbind (Inr x) f = f x"

subsection \<open>The part of package reflect that maybe.go calls\<close>

datatype kind =
    reflect_Invalid
  | reflect_Bool
  | reflect_Int
  | reflect_String
  | reflect_Ptr
  | reflect_Slice
  | reflect_Map
  | reflect_Func
  | reflect_Struct
  | reflect_Interface

text \<open>
  A \<^verbatim>\<open>reflect.Value\<close> is the value it holds, or \<open>None\<close> for the zero Value.
  It may hold a value of interface type (the result of \<^verbatim>\<open>Elem\<close> on a pointer to an
  interface), which an interface value never does.
\<close>

type_synonym reflect_Value = "val option"

text \<open>
  \<^verbatim>\<open>reflect.ValueOf(i any)\<close>. The argument is converted to \<^verbatim>\<open>any\<close> at the call:
  a value of interface type passes its dynamic value on, any other value becomes the
  dynamic value. \<^verbatim>\<open>ValueOf(nil)\<close> is the zero Value.
\<close>

definition reflect_ValueOf :: "val \<Rightarrow> reflect_Value" where
  "reflect_ValueOf v = (case v of VIface d \<Rightarrow> d | _ \<Rightarrow> Some v)"

text \<open>\<^verbatim>\<open>Value.Kind\<close>: the zero Value has kind Invalid.\<close>

fun reflect_Kind :: "reflect_Value \<Rightarrow> kind" where
  "reflect_Kind None = reflect_Invalid"
| "reflect_Kind (Some (VBool b)) = reflect_Bool"
| "reflect_Kind (Some (VInt i)) = reflect_Int"
| "reflect_Kind (Some (VString s)) = reflect_String"
| "reflect_Kind (Some (VPtr U p)) = reflect_Ptr"
| "reflect_Kind (Some (VSlice U xs)) = reflect_Slice"
| "reflect_Kind (Some (VMap K V m)) = reflect_Map"
| "reflect_Kind (Some (VFunc ps rs f)) = reflect_Func"
| "reflect_Kind (Some (VStruct fs)) = reflect_Struct"
| "reflect_Kind (Some (VIface d)) = reflect_Interface"

text \<open>\<^verbatim>\<open>Value.IsNil\<close>: panics unless the kind is a nilable one.\<close>

fun reflect_IsNil :: "reflect_Value \<Rightarrow> panic + bool" where
  "reflect_IsNil (Some (VPtr U p)) = Inr (p = None)"
| "reflect_IsNil (Some (VSlice U xs)) = Inr (xs = None)"
| "reflect_IsNil (Some (VMap K V m)) = Inr (m = None)"
| "reflect_IsNil (Some (VFunc ps rs f)) = Inr (f = None)"
| "reflect_IsNil (Some (VIface d)) = Inr (d = None)"
| "reflect_IsNil _ = Inl ValueError"

text \<open>
  \<^verbatim>\<open>Value.Elem\<close>: what a pointer points to or an interface contains, the zero Value
  when that pointer or interface is nil; panics on every other kind.
\<close>

fun reflect_Elem :: "reflect_Value \<Rightarrow> panic + reflect_Value" where
  "reflect_Elem (Some (VPtr U p)) = Inr p"
| "reflect_Elem (Some (VIface d)) = Inr d"
| "reflect_Elem _ = Inl ValueError"

text \<open>
  \<^verbatim>\<open>Value.Interface\<close>: the held value as an \<^verbatim>\<open>any\<close>, given by its dynamic value.
  A held interface value hands over what it contains. Panics on the zero Value.
\<close>

fun reflect_Interface :: "reflect_Value \<Rightarrow> panic + val option" where
  "reflect_Interface None = Inl ValueError"
| "reflect_Interface (Some (VIface d)) = Inr d"
| "reflect_Interface (Some v) = Inr (Some v)"

text \<open>
  The type assertion \<^verbatim>\<open>x.(T)\<close> on an \<^verbatim>\<open>any\<close> with dynamic value \<open>x\<close>. It panics
  on the nil interface. For the interface type \<^verbatim>\<open>any\<close> every dynamic value passes;
  for any other \<open>T\<close> the dynamic type must be identical to \<open>T\<close>.
\<close>

fun type_assert :: "ty \<Rightarrow> val option \<Rightarrow> panic + val" where
  "type_assert T None = Inl TypeAssertionError"
| "type_assert T (Some d) =
     (if T = TAny then Inr (VIface (Some d))
      else if type_of d = T then Inr d
      else Inl TypeAssertionError)"

subsection \<open>The container\<close>

text \<open>\<^verbatim>\<open>type Maybe[T any] struct { value T; valid bool }\<close>\<close>

record Maybe =
  "value" :: val
  valid :: bool

definition HasValue :: "Maybe \<Rightarrow> bool" where
  "HasValue m = valid m"

definition Value :: "Maybe \<Rightarrow> val" where
  "Value m = value m"

definition ValueOr :: "Maybe \<Rightarrow> val \<Rightarrow> val" where
  "ValueOr m v = (if valid m then value m else v)"

text \<open>\<^verbatim>\<open>Nothing[T]()\<close> is the literal \<^verbatim>\<open>Maybe[T]{valid: false}\<close>: the value field is zero.\<close>

definition Nothing :: "ty \<Rightarrow> Maybe" where
  "Nothing T = \<lparr>value = zero T, valid = False\<rparr>"

text \<open>
  \<^verbatim>\<open>Just[T](v)\<close>. When the run-time kind of \<open>v\<close> is Ptr, a nil pointer gives
  \<open>Nothing\<close>, and otherwise the value pointed to is asserted to have type \<open>T\<close> and
  stored. Any other kind is stored as it is.
\<close>

definition Just :: "ty \<Rightarrow> val \<Rightarrow> panic + Maybe" where
  "Just T v =
     (if reflect_Kind (reflect_ValueOf v) = reflect_Ptr then
        (let rv = reflect_ValueOf v in
         pbind (reflect_IsNil rv) (\<lambda>isnil.
           if isnil then Inr (Nothing T)
           else pbind (pbind (pbind (reflect_Elem rv) reflect_Interface) (type_assert T))
                  (\<lambda>x. Inr \<lparr>value = x, valid = True\<rparr>)))
      else Inr \<lparr>value = v, valid = True\<rparr>)"

text \<open>
  \<^verbatim>\<open>From[T](val, ok...)\<close>. The variadic \<open>ok\<close> is a list; only its first element is
  read. The pointer branch is written out a second time, as in the source.
\<close>

definition From :: "ty \<Rightarrow> val \<Rightarrow> bool list \<Rightarrow> panic + Maybe" where
  "From T val ok =
     (if length ok > 0 \<and> \<not> ok ! 0 then Inr (Nothing T)
      else if reflect_Kind (reflect_ValueOf val) = reflect_Ptr then
        (let rv = reflect_ValueOf val in
         pbind (reflect_IsNil rv) (\<lambda>isnil.
           if isnil then Inr (Nothing T)
           else pbind (pbind (pbind (reflect_Elem rv) reflect_Interface) (type_assert T))
                  (\<lambda>x. Inr \<lparr>value = x, valid = True\<rparr>)))
      else Just T val)"

text \<open>
  The combinators. A function argument is a total function of HOL: what it does
  when it panics itself is not modelled. \<open>B\<close> is the type argument of the result.
  The two parameters of \<^verbatim>\<open>Match\<close>, which the source calls \<^verbatim>\<open>Nothing\<close> and
  \<^verbatim>\<open>Just\<close>, are \<open>onNothing\<close> and \<open>onJust\<close> here.
\<close>

definition Map :: "ty \<Rightarrow> (val \<Rightarrow> val) \<Rightarrow> Maybe \<Rightarrow> panic + Maybe" where
  "Map B f = (\<lambda>m. if valid m then Just B (f (value m)) else Inr (Nothing B))"

definition Fmap :: "ty \<Rightarrow> (val \<Rightarrow> Maybe) \<Rightarrow> Maybe \<Rightarrow> Maybe" where
  "Fmap B f = (\<lambda>m. if valid m then f (value m) else Nothing B)"

definition Match :: "(unit \<Rightarrow> 'b) \<Rightarrow> (val \<Rightarrow> 'b) \<Rightarrow> Maybe \<Rightarrow> 'b" where
  "Match onNothing onJust = (\<lambda>m. if valid m then onJust (value m) else onNothing ())"


subsection \<open>Serialization\<close>

text \<open>
  Both methods call package \<^verbatim>\<open>encoding/json\<close> on a local \<^verbatim>\<open>var t *T\<close>, which is
  an option here: \<open>None\<close> for the nil pointer, \<open>Some x\<close> for a pointer to \<open>x\<close>. The
  two library functions are parameters. \<open>json_Unmarshal T data\<close> stands for
  \<^verbatim>\<open>json.Unmarshal(data, &t)\<close> and returns the error, or else the content of \<open>t\<close>
  after the call; \<open>json_Marshal T t\<close> stands for \<^verbatim>\<open>json.Marshal(t)\<close>.

  \<^verbatim>\<open>UnmarshalJSON\<close> has a pointer receiver: the model returns the container
  after the call together with the returned error (\<open>None\<close> for nil), unless the call
  panics.
\<close>

definition UnmarshalJSON ::
  "ty \<Rightarrow> (ty \<Rightarrow> string \<Rightarrow> 'e + val option) \<Rightarrow> Maybe \<Rightarrow> string \<Rightarrow> panic + (Maybe \<times> 'e option)" where
  "UnmarshalJSON T json_Unmarshal m data =
     (case json_Unmarshal T data of
        Inl err \<Rightarrow> Inr (m, Some err)
      | Inr t \<Rightarrow>
          (case t of
             Some tv \<Rightarrow> pbind (Just T tv) (\<lambda>j. Inr (j, None))
           | None \<Rightarrow> Inr (m, None)))"

definition MarshalJSON :: "ty \<Rightarrow> (ty \<Rightarrow> val option \<Rightarrow> 'e + string) \<Rightarrow> Maybe \<Rightarrow> 'e + string" where
  "MarshalJSON T json_Marshal m =
     (let t = (if valid m then Some (value m) else None) in json_Marshal T t)"

subsection \<open>A decoder to instantiate the parameter\<close>

text \<open>
  For concrete runs the decoder parameter is instantiated with \<open>literal_Unmarshal\<close>,
  which reads the literal \<^verbatim>\<open>null\<close> and unsigned decimal integers into targets of
  type \<^verbatim>\<open>int\<close> and pointers to them, and reports an error on every other input.
  On \<^verbatim>\<open>null\<close> the target pointer stays nil; on a number a pointer target is
  allocated down to the integer.
\<close>

definition digit :: "char \<Rightarrow> int option" where
  "digit c =
     (let n = of_char c :: int in if 48 \<le> n \<and> n \<le> 57 then Some (n - 48) else None)"

fun digits :: "int \<Rightarrow> string \<Rightarrow> int option" where
  "digits acc [] = Some acc"
| "digits acc (c # cs) =
     (case digit c of None \<Rightarrow> None | Some d \<Rightarrow> digits (10 * acc + d) cs)"

definition number :: "string \<Rightarrow> int option" where
  "number s =
     (case s of
        [] \<Rightarrow> None
      | c # cs \<Rightarrow> if c = CHR ''0'' \<and> cs \<noteq> [] then None else digits 0 s)"

fun literal :: "ty \<Rightarrow> string \<Rightarrow> string + val" where
  "literal TInt s =
     (case number s of
        None \<Rightarrow> Inl ''invalid character''
      | Some n \<Rightarrow>
          if n < 9223372036854775808 then Inr (VInt (word_of_int n))
          else Inl ''number out of range'')"
| "literal (TPtr U) s =
     (if s = ''null'' then Inr (VPtr U None)
      else case literal U s of Inl e \<Rightarrow> Inl e | Inr v \<Rightarrow> Inr (VPtr U (Some v)))"
| "literal T s = Inl ''unsupported type''"

definition literal_Unmarshal :: "ty \<Rightarrow> string \<Rightarrow> string + val option" where
  "literal_Unmarshal T data =
     (if data = ''null'' then Inr None
      else case literal T data of Inl e \<Rightarrow> Inl e | Inr v \<Rightarrow> Inr (Some v))"

subsection \<open>Error values\<close>

text \<open>
  The values of Go's \<^verbatim>\<open>error\<close> interface that decoding is concerned with. A
  \<open>SyntaxError\<close> is an error of the decoder and carries its message. A
  \<open>DecodeError\<close> is the wrapper in which the specification says a decoding failure
  is reported, holding the decoder's error; it is here so that the specification's
  result can be compared with the code's. \<^verbatim>\<open>maybe.go\<close> declares no error type and
  builds no error value of its own.
\<close>

datatype error = is_SyntaxError: SyntaxError string | is_DecodeError: DecodeError error

text \<open>
  The sample decoder with its errors as values of \<^verbatim>\<open>error\<close>.
\<close>

definition literal_Unmarshal_error :: "ty \<Rightarrow> string \<Rightarrow> error + val option" where
  "literal_Unmarshal_error T data =
     (case literal_Unmarshal T data of Inl msg \<Rightarrow> Inl (SyntaxError msg) | Inr t \<Rightarrow> Inr t)"

text \<open>
  Two functions to pass to \<open>Map\<close>: \<^verbatim>\<open>func(int) *int { return nil }\<close>, and
  \<^verbatim>\<open>func(p *int) int\<close> returning \<^verbatim>\<open>*p\<close>, or 0 when \<open>p\<close> is nil.
\<close>

definition always_nil :: "val \<Rightarrow> val" where
  "always_nil v = VPtr TInt None"

definition deref_or_zero :: "val \<Rightarrow> val" where
  "deref_or_zero p = (case p of VPtr U (Some x) \<Rightarrow> x | _ \<Rightarrow> VInt 0)"

section \<open>Properties\<close>

subsection \<open>Facts about the constructors used below\<close>

lemma Just_not_Ptr:
  "reflect_Kind (reflect_ValueOf v) \<noteq> reflect_Ptr \<Longrightarrow> Just T v = Inr \<lparr>value = v, valid = True\<rparr>"
  by (simp add: Just_def)

lemma From_not_Ptr:
  "reflect_Kind (reflect_ValueOf v) \<noteq> reflect_Ptr \<Longrightarrow> ok = [] \<or> ok ! 0
     \<Longrightarrow> From T v ok = Inr \<lparr>value = v, valid = True\<rparr>"
  by (auto simp: From_def Just_not_Ptr)

lemma Just_nil_Ptr: "Just T (VPtr U None) = Inr (Nothing T)"
  by (simp add: Just_def reflect_ValueOf_def)

lemma Just_nil_Ptr_in_interface: "Just T (VIface (Some (VPtr U None))) = Inr (Nothing T)"
  by (simp add: Just_def reflect_ValueOf_def)

lemma From_eq_Just: "ok = [] \<or> ok ! 0 \<Longrightarrow> From T v ok = Just T v"
  by (auto simp: From_def Just_def)

lemma literal_Unmarshal_null: "literal_Unmarshal T ''null'' = Inr None"
  by (simp add: literal_Unmarshal_def)

subsection \<open>Construction\<close>

text \<open>
  Claim C4. For every pointer type \<^verbatim>\<open>*U\<close>, the nil pointer given to \<open>Just\<close>, or to
  \<open>From\<close> with no flag or with a first flag that is true, yields \<open>Nothing\<close> of that
  type: a container without a value whose stored value is the zero value.
\<close>

theorem nil_pointer_is_Nothing:
  "Just (TPtr U) (VPtr U None) = Inr (Nothing (TPtr U))
   \<and> From (TPtr U) (VPtr U None) [] = Inr (Nothing (TPtr U))
   \<and> From (TPtr U) (VPtr U None) (True # oks) = Inr (Nothing (TPtr U))
   \<and> HasValue (Nothing (TPtr U)) = False
   \<and> Value (Nothing (TPtr U)) = zero (TPtr U)"
  by (simp add: Just_nil_Ptr From_eq_Just HasValue_def Value_def Nothing_def)

text \<open>
  Claim C5. \<open>From\<close> with a first flag that is false returns \<open>Nothing\<close> whatever the
  value is. The flag is tested before the value is inspected: the result is
  \<open>Nothing\<close> also for a value on which the pointer branch would panic, such as a
  non-nil \<^verbatim>\<open>*int\<close>.
\<close>

theorem From_false_is_Nothing:
  "From T v (False # oks) = Inr (Nothing T) \<and> HasValue (Nothing T) = False
   \<and> From (TPtr TInt) (VPtr TInt (Some (VInt 5))) [False] = Inr (Nothing (TPtr TInt))
   \<and> From (TPtr TInt) (VPtr TInt (Some (VInt 5))) [True] = Inl TypeAssertionError"
  by (simp add: From_def HasValue_def Nothing_def reflect_ValueOf_def)

text \<open>
  Claim C10. Only the kind Ptr collapses. The nil interface, a nil slice, a nil map
  and a nil function given to \<open>Just\<close>, or to \<open>From\<close> with no flag or a true first
  flag, are stored: the container has a value, and the value is that nil.
\<close>

theorem nil_of_other_kinds_is_kept:
  "Just TAny (VIface None) = Inr \<lparr>value = VIface None, valid = True\<rparr>
   \<and> Just (TSlice U) (VSlice U None) = Inr \<lparr>value = VSlice U None, valid = True\<rparr>
   \<and> Just (TMap K V) (VMap K V None) = Inr \<lparr>value = VMap K V None, valid = True\<rparr>
   \<and> Just (TFunc ps rs) (VFunc ps rs None) = Inr \<lparr>value = VFunc ps rs None, valid = True\<rparr>
   \<and> From TAny (VIface None) [] = Inr \<lparr>value = VIface None, valid = True\<rparr>
   \<and> From (TSlice U) (VSlice U None) [] = Inr \<lparr>value = VSlice U None, valid = True\<rparr>
   \<and> From (TMap K V) (VMap K V None) [] = Inr \<lparr>value = VMap K V None, valid = True\<rparr>
   \<and> From (TFunc ps rs) (VFunc ps rs None) [] = Inr \<lparr>value = VFunc ps rs None, valid = True\<rparr>
   \<and> From TAny (VIface None) (True # oks) = Inr \<lparr>value = VIface None, valid = True\<rparr>
   \<and> From (TSlice U) (VSlice U None) (True # oks) = Inr \<lparr>value = VSlice U None, valid = True\<rparr>
   \<and> From (TMap K V) (VMap K V None) (True # oks) = Inr \<lparr>value = VMap K V None, valid = True\<rparr>
   \<and> From (TFunc ps rs) (VFunc ps rs None) (True # oks)
       = Inr \<lparr>value = VFunc ps rs None, valid = True\<rparr>
   \<and> HasValue \<lparr>value = x, valid = True\<rparr>"
  by (simp add: Just_not_Ptr From_not_Ptr reflect_ValueOf_def HasValue_def)


text \<open>
  Claim C3, as the code has it. A value whose run-time kind is not Ptr is stored
  unchanged: the container has a value, and \<open>Value\<close> returns the argument. (The claim
  also promises this of every non-nil pointer; there the pointer branch stores the
  value pointed to instead, as the next theorem shows.)
\<close>

theorem Just_other_kinds_kept:
  assumes "reflect_Kind (reflect_ValueOf v) \<noteq> reflect_Ptr"
  shows "\<exists>m. Just T v = Inr m \<and> HasValue m = True \<and> Value m = v"
  using assms by (simp add: Just_not_Ptr HasValue_def Value_def)

theorem Just_other_kinds_kept_witness:
  "reflect_Kind (reflect_ValueOf (VInt 42)) \<noteq> reflect_Ptr
   \<and> (\<exists>m. Just TInt (VInt 42) = Inr m \<and> HasValue m = True \<and> Value m = VInt 42)"
proof -
  have k: "reflect_Kind (reflect_ValueOf (VInt 42)) \<noteq> reflect_Ptr"
    by (simp add: reflect_ValueOf_def)
  from k Just_other_kinds_kept [OF k, of TInt] show ?thesis by simp
qed

text \<open>
  Where claim C3 fails: \<^verbatim>\<open>Just[any]\<close> on an interface value that holds a non-nil
  \<^verbatim>\<open>*int\<close> pointing to 5. The kind is Ptr, the pointer is not nil, and the
  assertion to \<^verbatim>\<open>any\<close> passes, so the container holds the integer 5 and not the
  pointer that was passed in.
\<close>

theorem Just_pointer_in_interface_dereferenced:
  "Just TAny (VIface (Some (VPtr TInt (Some (VInt 5)))))
     = Inr \<lparr>value = VIface (Some (VInt 5)), valid = True\<rparr>
   \<and> Value \<lparr>value = VIface (Some (VInt 5)), valid = True\<rparr>
     \<noteq> VIface (Some (VPtr TInt (Some (VInt 5))))"
  by (simp add: Just_def reflect_ValueOf_def Value_def)

text \<open>
  Claim C2 says that construction and \<open>Map\<close> never panic. On a non-nil \<^verbatim>\<open>*int\<close>
  pointing to 5, with \<open>T\<close> the type \<^verbatim>\<open>*int\<close>, the pointer branch asserts that the
  \<^verbatim>\<open>int\<close> pointed to has type \<^verbatim>\<open>*int\<close>: \<open>Just\<close> panics, and so do \<open>From\<close>
  (no flag, or a true one) and \<open>Map\<close> with a function that returns such a pointer.
\<close>

theorem pointer_construction_panics:
  "Just (TPtr TInt) (VPtr TInt (Some (VInt 5))) = Inl TypeAssertionError
   \<and> From (TPtr TInt) (VPtr TInt (Some (VInt 5))) [] = Inl TypeAssertionError
   \<and> From (TPtr TInt) (VPtr TInt (Some (VInt 5))) [True] = Inl TypeAssertionError
   \<and> Map (TPtr TInt) (VPtr TInt \<circ> Some) \<lparr>value = VInt 5, valid = True\<rparr>
       = Inl TypeAssertionError"
  by (simp add: Just_def From_def Map_def reflect_ValueOf_def)

text \<open>
  The panic is not particular to that input: a non-nil pointer to a value that is not
  of interface type never passes the assertion at a pointer type.
\<close>

lemma ty_not_own_pointer: "U \<noteq> TPtr U"
  by (induction U) auto

lemma Just_nonnil_pointer_panics:
  assumes "type_of x = U" and "U \<noteq> TAny"
  shows "Just (TPtr U) (VPtr U (Some x)) = Inl TypeAssertionError"
proof -
  from assms have "reflect_Interface (Some x) = Inr (Some x)"
    by (cases x) auto
  with assms show ?thesis
    by (simp add: Just_def reflect_ValueOf_def ty_not_own_pointer)
qed

subsection \<open>Decoding\<close>

text \<open>
  The decoder parameter is assumed to do what \<^verbatim>\<open>json.Unmarshal\<close> does on the
  literal \<^verbatim>\<open>null\<close> with a pointer target: leave the pointer nil and return no error.

  Claim C9. Decoding \<^verbatim>\<open>null\<close> returns no error and leaves the receiver as it was,
  value and flag: a container that had a value still has it.
\<close>

theorem UnmarshalJSON_null_unchanged:
  assumes "json_Unmarshal T ''null'' = Inr None"
  shows "UnmarshalJSON T json_Unmarshal m ''null'' = Inr (m, None)"
  using assms by (simp add: UnmarshalJSON_def)

theorem UnmarshalJSON_null_unchanged_witness:
  "literal_Unmarshal TInt ''null'' = Inr None
   \<and> UnmarshalJSON TInt literal_Unmarshal \<lparr>value = VInt 7, valid = True\<rparr> ''null''
       = Inr (\<lparr>value = VInt 7, valid = True\<rparr>, None)
   \<and> HasValue \<lparr>value = VInt 7, valid = True\<rparr>"
proof -
  have n: "literal_Unmarshal TInt ''null'' = Inr None"
    by (rule literal_Unmarshal_null)
  from n UnmarshalJSON_null_unchanged
    [where json_Unmarshal = literal_Unmarshal and T = TInt
       and m = "\<lparr>value = VInt 7, valid = True\<rparr>"]
  show ?thesis by (simp add: HasValue_def)
qed

text \<open>
  Claim C1, as the code has it. Decoding \<^verbatim>\<open>null\<close> into a container that is
  \<open>Nothing\<close>, as a newly declared one is, yields \<open>Nothing\<close>. (The claim promises
  \<open>Nothing\<close> for every prior state; a container that had a value keeps it, as
  shown after the theorem.)
\<close>

theorem UnmarshalJSON_null_Nothing:
  assumes "json_Unmarshal T ''null'' = Inr None"
  shows "UnmarshalJSON T json_Unmarshal (Nothing T) ''null'' = Inr (Nothing T, None)
         \<and> HasValue (Nothing T) = False"
  using assms by (simp add: UnmarshalJSON_def HasValue_def Nothing_def)

theorem UnmarshalJSON_null_Nothing_witness:
  "literal_Unmarshal TInt ''null'' = Inr None
   \<and> UnmarshalJSON TInt literal_Unmarshal (Nothing TInt) ''null'' = Inr (Nothing TInt, None)
   \<and> HasValue (Nothing TInt) = False"
proof -
  have n: "literal_Unmarshal TInt ''null'' = Inr None"
    by (rule literal_Unmarshal_null)
  from n UnmarshalJSON_null_Nothing [where json_Unmarshal = literal_Unmarshal and T = TInt]
  show ?thesis by simp
qed

text \<open>
  Where claim C1 fails: an \<^verbatim>\<open>int\<close> container holding 5 still holds 5 after
  \<^verbatim>\<open>null\<close> has been decoded into it, and is not \<open>Nothing\<close>.
\<close>

theorem UnmarshalJSON_null_keeps_value:
  "UnmarshalJSON TInt literal_Unmarshal \<lparr>value = VInt 5, valid = True\<rparr> ''null''
     = Inr (\<lparr>value = VInt 5, valid = True\<rparr>, None)
   \<and> HasValue \<lparr>value = VInt 5, valid = True\<rparr> = True
   \<and> \<lparr>value = VInt 5, valid = True\<rparr> \<noteq> Nothing TInt"
  by (simp add: UnmarshalJSON_def literal_Unmarshal_def HasValue_def Nothing_def)

text \<open>
  Claim C7, as the code has it. When the decoder rejects the input,
  \<^verbatim>\<open>UnmarshalJSON\<close> returns the decoder's error itself, the very value the decoder
  gave and in no wrapper, and the receiver is what it was before the call.
\<close>

theorem UnmarshalJSON_error_unchanged:
  assumes "json_Unmarshal T data = Inl err"
  shows "UnmarshalJSON T json_Unmarshal m data = Inr (m, Some err)"
  using assms by (simp add: UnmarshalJSON_def)

theorem UnmarshalJSON_error_unchanged_witness:
  "literal_Unmarshal TInt ''abc'' = Inl ''invalid character''
   \<and> UnmarshalJSON TInt literal_Unmarshal \<lparr>value = VInt 7, valid = True\<rparr> ''abc''
       = Inr (\<lparr>value = VInt 7, valid = True\<rparr>, Some ''invalid character'')"
proof -
  have e: "literal_Unmarshal TInt ''abc'' = Inl ''invalid character''"
    by (simp add: literal_Unmarshal_def number_def digit_def)
  from e UnmarshalJSON_error_unchanged
    [where json_Unmarshal = literal_Unmarshal and T = TInt and data = "''abc''"
       and m = "\<lparr>value = VInt 7, valid = True\<rparr>"]
  show ?thesis by simp
qed

text \<open>
  Where claim C7 fails as stated. The literal \<^verbatim>\<open>abc\<close> is malformed for \<^verbatim>\<open>int\<close> and the
  decoder rejects it with a \<open>SyntaxError\<close>. Decoding it into a \<^verbatim>\<open>Maybe[int]\<close> holding 7
  leaves the container as it was, as the claim says, but the error returned is that
  \<open>SyntaxError\<close>: it is not a \<open>DecodeError\<close>, and so not the \<open>DecodeError\<close> wrapping
  the decoder's error that the claim says is returned.
\<close>

theorem UnmarshalJSON_error_not_DecodeError:
  "literal_Unmarshal_error TInt ''abc'' = Inl (SyntaxError ''invalid character'')
   \<and> UnmarshalJSON TInt literal_Unmarshal_error \<lparr>value = VInt 7, valid = True\<rparr> ''abc''
       = Inr (\<lparr>value = VInt 7, valid = True\<rparr>, Some (SyntaxError ''invalid character''))
   \<and> \<not> is_DecodeError (SyntaxError ''invalid character'')
   \<and> SyntaxError ''invalid character'' \<noteq> DecodeError (SyntaxError ''invalid character'')"
  by (simp add: UnmarshalJSON_def literal_Unmarshal_error_def literal_Unmarshal_def
      number_def digit_def)


subsection \<open>The round trip\<close>

text \<open>
  What holds of encoding followed by decoding into a new container, for any encoder
  and decoder that agree on the value: \<open>Nothing\<close> comes back as \<open>Nothing\<close>, a nil
  pointer is constructed as \<open>Nothing\<close> and comes back so, and a value whose kind is
  not Ptr comes back in the container \<open>Just\<close> made of it.
\<close>

lemma round_trip_Nothing:
  assumes "json_Marshal T None = Inr data" and "json_Unmarshal T data = Inr None"
  shows "MarshalJSON T json_Marshal (Nothing T) = Inr data
         \<and> UnmarshalJSON T json_Unmarshal (Nothing T) data = Inr (Nothing T, None)"
  using assms by (simp add: MarshalJSON_def UnmarshalJSON_def Nothing_def)

lemma round_trip_nil_pointer:
  assumes "json_Marshal T None = Inr data" and "json_Unmarshal T data = Inr None"
  shows "pbind (Just T (VPtr U None))
           (\<lambda>m. case MarshalJSON T json_Marshal m of
                   Inl e \<Rightarrow> Inr (m, Some e)
                 | Inr d \<Rightarrow> UnmarshalJSON T json_Unmarshal (Nothing T) d)
         = Inr (Nothing T, None)"
  using assms by (simp add: Just_nil_Ptr MarshalJSON_def UnmarshalJSON_def Nothing_def)

lemma round_trip_other_kinds:
  assumes "reflect_Kind (reflect_ValueOf v) \<noteq> reflect_Ptr"
    and "json_Marshal T (Some v) = Inr data"
    and "json_Unmarshal T data = Inr (Some v)"
  shows "MarshalJSON T json_Marshal \<lparr>value = v, valid = True\<rparr> = Inr data
         \<and> UnmarshalJSON T json_Unmarshal (Nothing T) data
             = Inr (\<lparr>value = v, valid = True\<rparr>, None)"
  using assms by (simp add: MarshalJSON_def UnmarshalJSON_def Just_not_Ptr)

text \<open>
  Claim C6 also covers a non-nil pointer, whose own encoding is that of the value it
  points to. For a \<^verbatim>\<open>*int\<close> pointing to 5 neither half of the round trip produces
  a container: \<open>Just\<close> panics before anything is encoded, and decoding the literal
  \<^verbatim>\<open>5\<close> into a \<^verbatim>\<open>Maybe[*int]\<close> panics in the \<open>Just\<close> that \<^verbatim>\<open>UnmarshalJSON\<close>
  calls on the decoded pointer.
\<close>

theorem pointer_round_trip_panics:
  "Just (TPtr TInt) (VPtr TInt (Some (VInt 5))) = Inl TypeAssertionError
   \<and> literal_Unmarshal (TPtr TInt) ''5'' = Inr (Some (VPtr TInt (Some (VInt 5))))
   \<and> UnmarshalJSON (TPtr TInt) literal_Unmarshal (Nothing (TPtr TInt)) ''5''
       = Inl TypeAssertionError"
  by (simp add: UnmarshalJSON_def literal_Unmarshal_def number_def digit_def Just_def
      reflect_ValueOf_def)

subsection \<open>Map\<close>

text \<open>
  Claim C8, as the code has it. \<open>Map\<close> builds its result with \<open>Just\<close>, so the functor
  laws hold away from the kind Ptr. Identity: \<open>Map id\<close> returns \<open>m\<close> when \<open>m\<close> is
  \<open>Nothing\<close>, or has a value whose kind is not Ptr. Composition: \<open>Map (g \<circ> f)\<close> agrees
  with \<open>Map f\<close> followed by \<open>Map g\<close> when \<open>m\<close> has no value, or \<open>f\<close> maps its value to
  one whose kind is not Ptr. \<open>A\<close>, \<open>B\<close> and \<open>C\<close> are the element types.
\<close>

theorem Map_functor_laws:
  "((if valid m then reflect_Kind (reflect_ValueOf (value m)) \<noteq> reflect_Ptr
     else m = Nothing A)
    \<longrightarrow> Map A id m = Inr m)
   \<and> ((valid m \<longrightarrow> reflect_Kind (reflect_ValueOf (f (value m))) \<noteq> reflect_Ptr)
    \<longrightarrow> Map C (g \<circ> f) m = pbind (Map B f m) (Map C g))"
proof (intro conjI impI)
  assume wf: "if valid m then reflect_Kind (reflect_ValueOf (value m)) \<noteq> reflect_Ptr
              else m = Nothing A"
  show "Map A id m = Inr m"
  proof (cases "valid m")
    case True
    with wf have "Just A (value m) = Inr \<lparr>value = value m, valid = True\<rparr>"
      by (simp add: Just_not_Ptr)
    with True show ?thesis by (simp add: Map_def)
  next
    case False
    with wf show ?thesis by (simp add: Map_def Nothing_def)
  qed
next
  assume k: "valid m \<longrightarrow> reflect_Kind (reflect_ValueOf (f (value m))) \<noteq> reflect_Ptr"
  show "Map C (g \<circ> f) m = pbind (Map B f m) (Map C g)"
  proof (cases "valid m")
    case True
    with k have "Just B (f (value m)) = Inr \<lparr>value = f (value m), valid = True\<rparr>"
      by (simp add: Just_not_Ptr)
    with True show ?thesis by (simp add: Map_def)
  next
    case False
    then show ?thesis by (simp add: Map_def Nothing_def)
  qed
qed

theorem Map_functor_laws_witness:
  "Map TInt id \<lparr>value = VInt 1, valid = True\<rparr> = Inr \<lparr>value = VInt 1, valid = True\<rparr>
   \<and> Map (TPtr TInt) (always_nil \<circ> deref_or_zero) \<lparr>value = VInt 1, valid = True\<rparr>
       = pbind (Map TInt deref_or_zero \<lparr>value = VInt 1, valid = True\<rparr>)
           (Map (TPtr TInt) always_nil)"
  using Map_functor_laws
    [where m = "\<lparr>value = VInt 1, valid = True\<rparr>" and A = TInt and B = TInt
       and C = "TPtr TInt" and f = deref_or_zero and g = always_nil]
  by (simp add: reflect_ValueOf_def deref_or_zero_def)

text \<open>
  Where claim C8 fails. Composition: on the \<^verbatim>\<open>int\<close> container holding 1, with
  \<open>always_nil\<close> first and \<open>deref_or_zero\<close> second, \<open>Map\<close> of the composition holds 0,
  while the two maps in sequence give \<open>Nothing\<close>, the nil pointer in between having
  been collapsed. Identity: the \<^verbatim>\<open>Maybe[any]\<close> that \<open>Just\<close> makes of a pointer to a
  \<^verbatim>\<open>*int\<close> holds that \<^verbatim>\<open>*int\<close>, and \<open>Map id\<close> replaces it by the integer 5.
\<close>

theorem Map_functor_laws_fail:
  "Map TInt (deref_or_zero \<circ> always_nil) \<lparr>value = VInt 1, valid = True\<rparr>
     = Inr \<lparr>value = VInt 0, valid = True\<rparr>
   \<and> pbind (Map (TPtr TInt) always_nil \<lparr>value = VInt 1, valid = True\<rparr>)
        (Map TInt deref_or_zero)
     = Inr \<lparr>value = VInt 0, valid = False\<rparr>
   \<and> Just TAny (VIface (Some (VPtr (TPtr TInt) (Some (VPtr TInt (Some (VInt 5)))))))
     = Inr \<lparr>value = VIface (Some (VPtr TInt (Some (VInt 5)))), valid = True\<rparr>
   \<and> Map TAny id \<lparr>value = VIface (Some (VPtr TInt (Some (VInt 5)))), valid = True\<rparr>
     = Inr \<lparr>value = VIface (Some (VInt 5)), valid = True\<rparr>"
  by (simp add: Map_def Just_def Nothing_def reflect_ValueOf_def always_nil_def
      deref_or_zero_def)

end
